theory Spec2Isabelle
  imports Main
begin

section \<open>Data model\<close>

text \<open>
  The service \<open>ClassRoomService\<close> (services/classRoom.service.ts) works on three Mongoose
  collections: \<open>ClassRoom\<close>, \<open>ClassSession\<close> and \<open>Participant\<close>. A document reference
  (an ObjectId) is a string; a \<open>Date\<close> is a number of ticks. An optional field of the
  schema (\<open>endedAt\<close>) is an \<open>option\<close>.
\<close>

type_synonym objectId = string
type_synonym date = nat

text \<open>
  An element of a participant list is a reference or \<open>null\<close> (\<open>None\<close>):
  \<open>joinSessionViaSessionList\<close> pushes \<open>participant.id\<close>, which is undefined on an object
  without id, and its membership tests guard against such elements (\<open>p?.toString()\<close>).
\<close>

type_synonym ref = "objectId option"

datatype UserRole = TEACHER | STUDENT

datatype EventType = JOIN | LEAVE | START | END

text \<open>
  \<open>IParticipants\<close> as a row of the Participant collection, \<open>p_id\<close> being its \<open>_id\<close>.
  The payload of \<open>joinClassroom\<close> has this type too; only its name, email and role are
  read.
\<close>

record IParticipants =
  p_id :: objectId
  name :: string
  email :: string
  role :: UserRole

text \<open>
  The classroom document as the service and its tests use it: \<open>isActive\<close>, the two current
  lists, the history and the \<open>eventLog\<close> array that the fixtures of
  tests/classRoomService.spec.ts carry.
\<close>

record IClassRoom =
  c_id :: objectId
  roomId :: string
  c_name :: string
  isActive :: bool
  teacherParticipant :: "ref list"
  studentParticipant :: "ref list"
  participantHistory :: "ref list"
  eventLog :: "objectId list"

text \<open>
  The session document of models/classSession.ts (\<open>startedAt\<close>, \<open>endedAt\<close>,
  \<open>participantsHistory\<close>, \<open>currentParticipants\<close>, \<open>classRoomId\<close>), with the \<open>eventLog\<close>
  array of the test fixtures as \<open>s_eventLog\<close>.
\<close>

record IClassSessions =
  s_id :: objectId
  startedAt :: "date option"
  endedAt :: "date option"
  participantsHistory :: "ref list"
  currentParticipants :: "ref list"
  classRoomId :: objectId
  s_eventLog :: "objectId list"

record IEventLog =
  e_id :: objectId
  e_type :: EventType
  e_participant :: objectId
  timestamp :: date

text \<open>
  \<open>IParticipants\<close> as the object a caller hands to \<open>joinSessionViaSessionList\<close>, which
  reads its \<open>_id\<close> (\<open>arg_id\<close>) and its \<open>id\<close> (\<open>arg_idString\<close>). Either may be undefined:
  a Mongoose document has both, a plain object with name, email and role has neither.
\<close>

record participantArg =
  arg_id :: "objectId option"
  arg_idString :: "objectId option"
  arg_name :: string
  arg_email :: string
  arg_role :: UserRole

record IJoinClassRoom =
  j_roomId :: objectId
  participant :: IParticipants

record store =
  classRooms :: "IClassRoom list"
  classSessions :: "IClassSessions list"
  participants :: "IParticipants list"
  eventLogs :: "IEventLog list"

text \<open>Every \<open>throw new Error(...)\<close> of the service is one constructor.\<close>

datatype error =
    ClassRoomDoesNotExist
  | ClassNotActive
  | ParticipantAlreadyInClassroom
  | SessionDoesNotExist
  | SessionNotFound
  | ClassroomNotAssociated
  | AlreadyInSession

fun error_message :: "error \<Rightarrow> string" where
  "error_message ClassRoomDoesNotExist = ''Class Room does not exist''"
| "error_message ClassNotActive = ''Class is not active. you cannot join.''"
| "error_message ParticipantAlreadyInClassroom = ''Participant already in classroom''"
| "error_message SessionDoesNotExist = ''Session does not exist''"
| "error_message SessionNotFound = ''Session not found''"
| "error_message ClassroomNotAssociated = ''Classroom not associated with session''"
| "error_message AlreadyInSession = ''User is already in this session somewhere''"

section \<open>The store\<close>

text \<open>
  \<open>Model.findById\<close>, \<open>Participant.findOne({ email })\<close> and \<open>document.save()\<close>. Saving a
  fetched document replaces the stored document of the same id; saving a new one appends it.
\<close>

definition findById_ClassRoom :: "store \<Rightarrow> objectId \<Rightarrow> IClassRoom option" where
  "findById_ClassRoom st rid = find (\<lambda>c. c_id c = rid) (classRooms st)"

definition findById_ClassSession :: "store \<Rightarrow> objectId \<Rightarrow> IClassSessions option" where
  "findById_ClassSession st sid = find (\<lambda>s. s_id s = sid) (classSessions st)"

definition findOne_Participant :: "store \<Rightarrow> string \<Rightarrow> IParticipants option" where
  "findOne_Participant st e = find (\<lambda>p. email p = e) (participants st)"

definition save_ClassRoom :: "IClassRoom \<Rightarrow> store \<Rightarrow> store" where
  "save_ClassRoom c st =
     st\<lparr>classRooms := map (\<lambda>x. if c_id x = c_id c then c else x) (classRooms st)\<rparr>"

definition save_ClassSession :: "IClassSessions \<Rightarrow> store \<Rightarrow> store" where
  "save_ClassSession s st =
     st\<lparr>classSessions := map (\<lambda>x. if s_id x = s_id s then s else x) (classSessions st)\<rparr>"

definition insert_ClassSession :: "IClassSessions \<Rightarrow> store \<Rightarrow> store" where
  "insert_ClassSession s st = st\<lparr>classSessions := classSessions st @ [s]\<rparr>"

definition insert_Participant :: "IParticipants \<Rightarrow> store \<Rightarrow> store" where
  "insert_Participant p st = st\<lparr>participants := participants st @ [p]\<rparr>"

section \<open>joinClassroom\<close>

text \<open>
  Modelled from the spec: the static \<open>ClassRoom.findParticipantByEmail\<close> of
  models/classRoom.ts, which is not among the sources. The spec calls it a
  membership-by-email query on current membership, not history. \<open>joinClassroom\<close> calls it
  with the email alone, so it ranges over the Classroom collection: it holds when some
  classroom lists, among its current teachers or students, the id of a participant row that
  has this email.
\<close>

definition ClassRoom_findParticipantByEmail :: "store \<Rightarrow> string \<Rightarrow> bool" where
  "ClassRoom_findParticipantByEmail st e =
     list_ex (\<lambda>c. list_ex (\<lambda>i. list_ex (\<lambda>p. Some (p_id p) = i \<and> email p = e) (participants st))
                          (teacherParticipant c @ studentParticipant c))
             (classRooms st)"

text \<open>
  \<open>joinClassroom(payload)\<close>. The first argument stands for the static
  \<open>ClassRoom.findParticipantByEmail\<close>, a query of the store and the email; \<open>newId\<close> is the
  id Mongoose gives a new Participant document. The list is chosen by the role of the
  payload, and the fetched or created participant is pushed to it and to the history.
\<close>

definition joinClassroom ::
  "(store \<Rightarrow> string \<Rightarrow> bool) \<Rightarrow> objectId \<Rightarrow> store \<Rightarrow> IJoinClassRoom
     \<Rightarrow> error + (IParticipants \<times> store)" where
  "joinClassroom findParticipantByEmail newId st payload =
     (let rid = j_roomId payload;
          nm = name (participant payload);
          r = role (participant payload);
          e = email (participant payload)
      in case findById_ClassRoom st rid of
           None \<Rightarrow> Inl ClassRoomDoesNotExist
         | Some classroom \<Rightarrow>
             if r = STUDENT \<and> \<not> isActive classroom then Inl ClassNotActive
             else
               (case findOne_Participant st e of
                  Some found \<Rightarrow>
                    if findParticipantByEmail st e then Inl ParticipantAlreadyInClassroom
                    else
                      (let c1 = (if r = TEACHER
                                 then classroom\<lparr>teacherParticipant :=
                                        teacherParticipant classroom @ [Some (p_id found)]\<rparr>
                                 else classroom\<lparr>studentParticipant :=
                                        studentParticipant classroom @ [Some (p_id found)]\<rparr>);
                           c2 = c1\<lparr>participantHistory :=
                                    participantHistory c1 @ [Some (p_id found)]\<rparr>
                       in Inr (found, save_ClassRoom c2 st))
                | None \<Rightarrow>
                    (let getParticipant = \<lparr>p_id = newId, name = nm, email = e, role = r\<rparr>;
                         st1 = insert_Participant getParticipant st;
                         c1 = (if r = TEACHER
                               then classroom\<lparr>teacherParticipant :=
                                      teacherParticipant classroom @ [Some (p_id getParticipant)]\<rparr>
                               else classroom\<lparr>studentParticipant :=
                                      studentParticipant classroom @ [Some (p_id getParticipant)]\<rparr>);
                         c2 = c1\<lparr>participantHistory :=
                                  participantHistory c1 @ [Some (p_id getParticipant)]\<rparr>
                     in Inr (getParticipant, save_ClassRoom c2 st1))))"

section \<open>startClass\<close>

text \<open>
  \<open>startClass(roomId, teacherId)\<close>, in the revision of the service that has
  \<open>leaveClassSession(sessionId, userId, role)\<close>: a new session document, saved and
  returned. \<open>newId\<close> is the id Mongoose gives the new document and \<open>now\<close> the value of
  \<open>new Date()\<close>. The store is not read.
\<close>

definition startClass ::
  "objectId \<Rightarrow> date \<Rightarrow> store \<Rightarrow> objectId \<Rightarrow> objectId \<Rightarrow> IClassSessions \<times> store" where
  "startClass newId now st rid teacherId =
     (let session = \<lparr>s_id = newId, startedAt = Some now, endedAt = None,
                      participantsHistory = [Some teacherId],
                      currentParticipants = [Some teacherId],
                      classRoomId = rid, s_eventLog = []\<rparr>
      in (session, insert_ClassSession session st))"

section \<open>leaveClassSession and leaveClassRoom\<close>

text \<open>
  \<open>leaveClassSession(sessionId, userId, role)\<close>, the three-argument revision of the service:
  the filter keeps the elements that differ from \<open>userId\<close> (a \<open>null\<close> element differs
  from every id); a teacher's leave also
  sets \<open>endedAt\<close> and empties the list. The session is saved.
\<close>

definition leaveClassSession ::
  "date \<Rightarrow> store \<Rightarrow> objectId \<Rightarrow> objectId \<Rightarrow> UserRole \<Rightarrow> error + (IClassSessions \<times> store)" where
  "leaveClassSession now st sid userId r =
     (case findById_ClassSession st sid of
        None \<Rightarrow> Inl SessionDoesNotExist
      | Some session \<Rightarrow>
          (let s1 = session\<lparr>currentParticipants :=
                              filter (\<lambda>p. p \<noteq> Some userId) (currentParticipants session)\<rparr>;
               s2 = (if r = TEACHER
                     then s1\<lparr>endedAt := Some now, currentParticipants := []\<rparr>
                     else s1)
           in Inr (s2, save_ClassSession s2 st)))"

text \<open>
  \<open>leaveClassRoom(roomId, userId, role)\<close>: the filter keeps the participants that are
  equal to \<open>userId\<close>. The classroom is returned and not saved, so no store comes back.
\<close>

definition leaveClassRoom ::
  "store \<Rightarrow> objectId \<Rightarrow> objectId \<Rightarrow> UserRole \<Rightarrow> error + IClassRoom" where
  "leaveClassRoom st rid userId r =
     (case findById_ClassRoom st rid of
        None \<Rightarrow> Inl SessionDoesNotExist
      | Some classroom \<Rightarrow>
          if r = STUDENT
          then Inr (classroom\<lparr>studentParticipant :=
                      filter (\<lambda>p. p = Some userId) (studentParticipant classroom)\<rparr>)
          else Inr (classroom\<lparr>teacherParticipant :=
                      filter (\<lambda>p. p = Some userId) (teacherParticipant classroom)\<rparr>))"

section \<open>joinSessionViaSessionList\<close>

text \<open>
  \<open>joinSessionViaSessionList(sessionId, participant)\<close>. The session is fetched with its
  classroom populated; a reference that resolves to no classroom gives \<open>null\<close>.

  \<open>Participant.create(participant)\<close> gives the new row the \<open>_id\<close> of the object when it has
  one and the fresh id \<open>newId\<close> otherwise. The four pushes take \<open>participant.id\<close>, not the
  id of the row.

  The two membership tests are \<open>list.some(p => p?.toString() == participant._id)\<close>: an
  element that is a reference matches an \<open>_id\<close> equal to it, and a \<open>null\<close> element matches
  an undefined \<open>_id\<close>, so the test is membership of \<open>arg_id\<close> in the list.
\<close>

definition create_Participant :: "objectId \<Rightarrow> participantArg \<Rightarrow> IParticipants" where
  "create_Participant newId p =
     \<lparr>p_id = (case arg_id p of Some i \<Rightarrow> i | None \<Rightarrow> newId),
      name = arg_name p, email = arg_email p, role = arg_role p\<rparr>"

definition joinSessionViaSessionList ::
  "objectId \<Rightarrow> store \<Rightarrow> objectId \<Rightarrow> participantArg
     \<Rightarrow> error + ((IParticipants \<times> objectId) \<times> store)" where
  "joinSessionViaSessionList newId st sid p =
     (case findById_ClassSession st sid of
        None \<Rightarrow> Inl SessionNotFound
      | Some session \<Rightarrow>
          (case findById_ClassRoom st (classRoomId session) of
             None \<Rightarrow> Inl ClassroomNotAssociated
           | Some classRoom \<Rightarrow>
               (case findOne_Participant st (arg_email p) of
                  None \<Rightarrow>
                    (let getParticipant = create_Participant newId p;
                         st1 = insert_Participant getParticipant st;
                         classRoom' = classRoom
                           \<lparr>studentParticipant := studentParticipant classRoom @ [arg_idString p],
                            participantHistory := participantHistory classRoom @ [arg_idString p]\<rparr>;
                         session' = session
                           \<lparr>currentParticipants := currentParticipants session @ [arg_idString p],
                            participantsHistory := participantsHistory session @ [arg_idString p]\<rparr>
                     in Inr ((getParticipant, c_id classRoom),
                             save_ClassSession session' (save_ClassRoom classRoom' st1)))
                | Some getParticipant \<Rightarrow>
                    (let alreadyInSession = (arg_id p \<in> set (currentParticipants session))
                     in if alreadyInSession then Inl AlreadyInSession
                        else
                          (let alreadyInClassroom =
                                 (arg_id p \<in> set (studentParticipant classRoom));
                               st1 = (if \<not> alreadyInClassroom
                                      then save_ClassRoom
                                             (classRoom
                                                \<lparr>studentParticipant :=
                                                   studentParticipant classRoom @ [arg_idString p],
                                                 participantHistory :=
                                                   participantHistory classRoom @ [arg_idString p]\<rparr>)
                                             st
                                      else st);
                               session' = session
                                 \<lparr>currentParticipants :=
                                    currentParticipants session @ [arg_idString p],
                                  participantsHistory :=
                                    participantsHistory session @ [arg_idString p]\<rparr>
                           in Inr ((getParticipant, c_id classRoom),
                                   save_ClassSession session' st1))))))"

section \<open>getClassRoomReportById\<close>

text \<open>
  Modelled from the spec: \<open>getClassRoomReportById\<close> and the response it builds (the
  Reporting Formatter), which are not among the sources; only their tests are. The
  classroom is fetched with its event log expanded, an event with its actor expanded; the
  sessions of the room are fetched with their own event logs expanded. A reference that
  resolves to no event is left out by the expansion, and an actor that resolves to no
  participant gives an entry without name and role. The result is a tagged response:
  status 200 with the report as data, or status 404 with the message and no data.
\<close>

record reportEvent =
  r_type :: EventType
  r_name :: "string option"
  r_role :: "UserRole option"
  r_timestamp :: date

record reportSession =
  rs_startedAt :: "date option"
  rs_endedAt :: "date option"
  rs_eventLog :: "reportEvent list"

record reportClassRoom =
  rc_id :: objectId
  rc_name :: string
  rc_roomId :: string
  rc_eventLog :: "reportEvent list"
  rc_sessions :: "reportSession list"

record serviceResponse =
  statusCode :: nat
  data :: "reportClassRoom option"
  message :: "string option"

definition findById_EventLog :: "store \<Rightarrow> objectId \<Rightarrow> IEventLog option" where
  "findById_EventLog st i = find (\<lambda>ev. e_id ev = i) (eventLogs st)"

definition findById_Participant :: "store \<Rightarrow> objectId \<Rightarrow> IParticipants option" where
  "findById_Participant st i = find (\<lambda>p. p_id p = i) (participants st)"

definition populateEventLog :: "store \<Rightarrow> objectId list \<Rightarrow> IEventLog list" where
  "populateEventLog st ids = List.map_filter (findById_EventLog st) ids"

definition formatEvent :: "store \<Rightarrow> IEventLog \<Rightarrow> reportEvent" where
  "formatEvent st ev =
     \<lparr>r_type = e_type ev,
      r_name = map_option name (findById_Participant st (e_participant ev)),
      r_role = map_option role (findById_Participant st (e_participant ev)),
      r_timestamp = timestamp ev\<rparr>"

definition formatSession :: "store \<Rightarrow> IClassSessions \<Rightarrow> reportSession" where
  "formatSession st s =
     \<lparr>rs_startedAt = startedAt s, rs_endedAt = endedAt s,
      rs_eventLog = map (formatEvent st) (populateEventLog st (s_eventLog s))\<rparr>"

definition getClassRoomReportById :: "store \<Rightarrow> objectId \<Rightarrow> serviceResponse" where
  "getClassRoomReportById st rid =
     (case findById_ClassRoom st rid of
        None \<Rightarrow> \<lparr>statusCode = 404, data = None, message = Some ''Class room not found''\<rparr>
      | Some classRoom \<Rightarrow>
          \<lparr>statusCode = 200,
           data = Some \<lparr>rc_id = c_id classRoom, rc_name = c_name classRoom,
                        rc_roomId = roomId classRoom,
                        rc_eventLog = map (formatEvent st)
                                          (populateEventLog st (eventLog classRoom)),
                        rc_sessions = map (formatSession st)
                                          (filter (\<lambda>s. classRoomId s = rid)
                                                  (classSessions st))\<rparr>,
           message = None\<rparr>)"

section \<open>Fixtures\<close>

text \<open>
  The documents of tests/classRoomService.spec.ts, and small stores around them. In
  \<open>store_new\<close> the room is active and empty and no participant exists (the test "creates
  and returns participant when new"). \<open>session_ended\<close> is the session of the test of
  \<open>leaveClassSession\<close>, which already carries an \<open>endedAt\<close>; \<open>session_s1\<close> is the same
  session while active.
\<close>

definition room_new :: IClassRoom where
  "room_new = \<lparr>c_id = ''r1'', roomId = ''rid'', c_name = ''R'', isActive = True,
                teacherParticipant = [], studentParticipant = [],
                participantHistory = [], eventLog = []\<rparr>"

definition store_new :: store where
  "store_new = \<lparr>classRooms = [room_new], classSessions = [], participants = [],
                 eventLogs = []\<rparr>"

definition payload_alice :: IJoinClassRoom where
  "payload_alice = \<lparr>j_roomId = ''r1'',
                     participant = \<lparr>p_id = [], name = ''Alice'', email = ''a@example.com'',
                                    role = STUDENT\<rparr>\<rparr>"

definition teacher_u1 :: IParticipants where
  "teacher_u1 = \<lparr>p_id = ''u1'', name = ''Tom'', email = ''t@example.com'', role = TEACHER\<rparr>"

definition student_u2 :: IParticipants where
  "student_u2 = \<lparr>p_id = ''u2'', name = ''Bob'', email = ''b@example.com'', role = STUDENT\<rparr>"

definition student_u3 :: IParticipants where
  "student_u3 = \<lparr>p_id = ''u3'', name = ''Cy'', email = ''c@example.com'', role = STUDENT\<rparr>"

definition room_r1 :: IClassRoom where
  "room_r1 = \<lparr>c_id = ''r1'', roomId = ''rid'', c_name = ''R'', isActive = True,
               teacherParticipant = [Some ''u1''],
               studentParticipant = [Some ''u2'', Some ''u3''],
               participantHistory = [Some ''u1'', Some ''u2'', Some ''u3''], eventLog = []\<rparr>"

definition room_r2 :: IClassRoom where
  "room_r2 = \<lparr>c_id = ''r2'', roomId = ''rid2'', c_name = ''Q'', isActive = False,
               teacherParticipant = [], studentParticipant = [],
               participantHistory = [], eventLog = []\<rparr>"

definition room_r3 :: IClassRoom where
  "room_r3 = \<lparr>c_id = ''r3'', roomId = ''rid3'', c_name = ''S'', isActive = True,
               teacherParticipant = [], studentParticipant = [],
               participantHistory = [], eventLog = []\<rparr>"

definition session_s1 :: IClassSessions where
  "session_s1 = \<lparr>s_id = ''s1'', startedAt = Some 1, endedAt = None,
                  participantsHistory = [Some ''u1'', Some ''u2''],
                  currentParticipants = [Some ''u1'', Some ''u2''],
                  classRoomId = ''r1'', s_eventLog = []\<rparr>"

definition session_ended :: IClassSessions where
  "session_ended = session_s1\<lparr>endedAt := Some 2\<rparr>"

definition session_s2 :: IClassSessions where
  "session_s2 = \<lparr>s_id = ''s2'', startedAt = Some 3, endedAt = None,
                  participantsHistory = [Some ''u2''], currentParticipants = [Some ''u2''],
                  classRoomId = ''r1'', s_eventLog = []\<rparr>"

definition store_s1 :: store where
  "store_s1 = \<lparr>classRooms = [room_r1, room_r2, room_r3], classSessions = [session_s1, session_s2],
                participants = [teacher_u1, student_u2, student_u3], eventLogs = []\<rparr>"

definition store_ended :: store where
  "store_ended = store_s1\<lparr>classSessions := [session_ended]\<rparr>"

text \<open>
  An inactive room whose only teacher is Tom, and two payloads for the inactive room
  \<open>r2\<close>: Tom again, and a teacher nobody has seen yet.
\<close>

definition store_inactive :: store where
  "store_inactive = \<lparr>classRooms = [room_r2\<lparr>teacherParticipant := [Some ''u1'']\<rparr>],
                      classSessions = [], participants = [teacher_u1], eventLogs = []\<rparr>"

definition payload_teacher :: IJoinClassRoom where
  "payload_teacher = \<lparr>j_roomId = ''r2'', participant = teacher_u1\<rparr>"

definition payload_new_teacher :: IJoinClassRoom where
  "payload_new_teacher =
     \<lparr>j_roomId = ''r2'',
      participant = \<lparr>p_id = [], name = ''Ann'', email = ''n@example.com'', role = TEACHER\<rparr>\<rparr>"

text \<open>
  The objects handed to \<open>joinSessionViaSessionList\<close>: Tom as a document of his row (with
  \<open>_id\<close> and \<open>id\<close>), and Bob as a plain object with his name, email and role only.
\<close>

definition arg_tom :: participantArg where
  "arg_tom = \<lparr>arg_id = Some ''u1'', arg_idString = Some ''u1'', arg_name = ''Tom'',
               arg_email = ''t@example.com'', arg_role = TEACHER\<rparr>"

definition arg_bob_plain :: participantArg where
  "arg_bob_plain = \<lparr>arg_id = None, arg_idString = None, arg_name = ''Bob'',
                     arg_email = ''b@example.com'', arg_role = STUDENT\<rparr>"

text \<open>A room whose log holds one JOIN event of Bob, with one session that holds it too.\<close>

definition event_e1 :: IEventLog where
  "event_e1 = \<lparr>e_id = ''e1'', e_type = JOIN, e_participant = ''u2'', timestamp = 4\<rparr>"

definition store_report :: store where
  "store_report =
     \<lparr>classRooms = [room_r1\<lparr>eventLog := [''e1'']\<rparr>, room_r2],
      classSessions = [session_ended\<lparr>s_eventLog := [''e1'']\<rparr>],
      participants = [teacher_u1, student_u2, student_u3],
      eventLogs = [event_e1]\<rparr>"

section \<open>Facts about the store\<close>

lemma find_replace:
  "find (\<lambda>x. k x = i) xs = Some y \<Longrightarrow> k y' = i
     \<Longrightarrow> find (\<lambda>x. k x = i) (map (\<lambda>x. if k x = i then y' else x) xs) = Some y'"
  by (induction xs) (auto split: if_splits)

lemma find_key: "find (\<lambda>x. k x = i) xs = Some y \<Longrightarrow> k y = i"
  by (induction xs) (auto split: if_splits)

lemma findById_save_ClassRoom:
  "findById_ClassRoom st rid = Some c \<Longrightarrow> c_id c' = rid
     \<Longrightarrow> findById_ClassRoom (save_ClassRoom c' st) rid = Some c'"
  by (simp add: findById_ClassRoom_def save_ClassRoom_def find_replace)

lemma findById_save_ClassSession:
  "findById_ClassSession st sid = Some s \<Longrightarrow> s_id s' = sid
     \<Longrightarrow> findById_ClassSession (save_ClassSession s' st) sid = Some s'"
  by (simp add: findById_ClassSession_def save_ClassSession_def find_replace)

lemma findById_ClassSession_save_ClassRoom:
  "findById_ClassSession (save_ClassRoom c st) sid = findById_ClassSession st sid"
  by (simp add: findById_ClassSession_def save_ClassRoom_def)

lemma findById_ClassRoom_save_ClassSession:
  "findById_ClassRoom (save_ClassSession s st) rid = findById_ClassRoom st rid"
  by (simp add: findById_ClassRoom_def save_ClassSession_def)

lemma findById_ClassSession_insert_Participant:
  "findById_ClassSession (insert_Participant p st) sid = findById_ClassSession st sid"
  by (simp add: findById_ClassSession_def insert_Participant_def)

lemma findById_ClassRoom_insert_Participant:
  "findById_ClassRoom (insert_Participant p st) rid = findById_ClassRoom st rid"
  by (simp add: findById_ClassRoom_def insert_Participant_def)

lemma findById_ClassRoom_key: "findById_ClassRoom st rid = Some c \<Longrightarrow> c_id c = rid"
  unfolding findById_ClassRoom_def by (rule find_key)

lemma findById_ClassSession_key: "findById_ClassSession st sid = Some s \<Longrightarrow> s_id s = sid"
  unfolding findById_ClassSession_def by (rule find_key)

section \<open>joinClassroom: the lists after a join\<close>

text \<open>
  After a successful join the stored classroom is the fetched one with the id of the
  returned participant appended to the list of the payload's role and to the history;
  the other list and the \<open>eventLog\<close> array are as before.
\<close>

lemma joinClassroom_classroom:
  assumes "joinClassroom q newId st payload = Inr (gp, st')"
    and "findById_ClassRoom st (j_roomId payload) = Some c"
  shows "findById_ClassRoom st' (j_roomId payload) =
           Some (if role (participant payload) = TEACHER
                 then c\<lparr>teacherParticipant := teacherParticipant c @ [Some (p_id gp)],
                        participantHistory := participantHistory c @ [Some (p_id gp)]\<rparr>
                 else c\<lparr>studentParticipant := studentParticipant c @ [Some (p_id gp)],
                        participantHistory := participantHistory c @ [Some (p_id gp)]\<rparr>)"
proof -
  have k: "c_id c = j_roomId payload"
    using assms(2) unfolding findById_ClassRoom_def by (rule find_key)
  have ins: "findById_ClassRoom (insert_Participant x st) (j_roomId payload) = Some c" for x
    using assms(2) by (simp add: findById_ClassRoom_def insert_Participant_def)
  show ?thesis
    using assms k
    by (auto simp add: joinClassroom_def Let_def findById_save_ClassRoom ins
        split: option.splits if_splits)
qed

lemma joinClassroom_history_length:
  assumes "joinClassroom q newId st payload = Inr (gp, st')"
    and "findById_ClassRoom st (j_roomId payload) = Some c"
  shows "\<exists>c'. findById_ClassRoom st' (j_roomId payload) = Some c'
              \<and> length (participantHistory c') = Suc (length (participantHistory c))
              \<and> eventLog c' = eventLog c"
  using joinClassroom_classroom [OF assms] by simp

lemma joinClassroom_eventLogs:
  "joinClassroom q newId st payload = Inr (gp, st') \<Longrightarrow> eventLogs st' = eventLogs st"
  by (auto simp add: joinClassroom_def Let_def save_ClassRoom_def insert_Participant_def
      split: option.splits if_splits)

text \<open>
  With the query over the collection, and a new id that is not yet in the room's current
  lists, the returned participant occurs exactly once in the list of the payload's role.
\<close>

lemma find_in_set: "find P xs = Some x \<Longrightarrow> x \<in> set xs \<and> P x"
  by (induction xs) (auto split: if_splits)

lemma joinClassroom_once:
  assumes j: "joinClassroom ClassRoom_findParticipantByEmail newId st payload = Inr (gp, st')"
    and f: "findById_ClassRoom st (j_roomId payload) = Some c"
    and fresh: "Some newId \<notin> set (teacherParticipant c @ studentParticipant c)"
  shows "\<exists>c'. findById_ClassRoom st' (j_roomId payload) = Some c'
            \<and> count_list (if role (participant payload) = TEACHER
                           then teacherParticipant c' else studentParticipant c')
                  (Some (p_id gp)) = 1"
proof -
  have cin: "c \<in> set (classRooms st)"
    using f find_in_set [of "\<lambda>c. c_id c = j_roomId payload" "classRooms st" c]
    by (simp add: findById_ClassRoom_def)
  have notin: "Some (p_id gp) \<notin> set (teacherParticipant c @ studentParticipant c)"
  proof (cases "findOne_Participant st (email (participant payload))")
    case None
    then have "p_id gp = newId"
      using j f by (auto simp add: joinClassroom_def Let_def split: if_splits)
    then show ?thesis using fresh by simp
  next
    case (Some row)
    then have g: "gp = row" and nq: "\<not> ClassRoom_findParticipantByEmail st (email (participant payload))"
      using j f by (auto simp add: joinClassroom_def Let_def split: if_splits)
    have rin: "row \<in> set (participants st) \<and> email row = email (participant payload)"
      using Some find_in_set [of "\<lambda>p. email p = email (participant payload)" "participants st" row]
      by (simp add: findOne_Participant_def)
    show ?thesis
    proof
      assume "Some (p_id gp) \<in> set (teacherParticipant c @ studentParticipant c)"
      then have "ClassRoom_findParticipantByEmail st (email (participant payload))"
        using cin rin g unfolding ClassRoom_findParticipantByEmail_def list_ex_iff by blast
      then show False using nq by simp
    qed
  qed
  show ?thesis
    using joinClassroom_classroom [OF j f] notin by simp
qed

text \<open>
  C1. The claim: after a successful \<open>joinClassroom\<close> the participant is once in the list of
  its role, the history is one longer, and the classroom's event log has gained one JOIN
  entry. The first two parts are \<open>joinClassroom_once\<close>, \<open>joinClassroom_classroom\<close>
  and \<open>joinClassroom_history_length\<close>. The third fails: \<open>joinClassroom\<close> records no event.
  On the documents of the test "creates and returns participant when new" (an active empty
  room, no participant row, the new row saved as \<open>p1\<close>), the join returns the new
  participant and the saved classroom has \<open>p1\<close> in the student list and in the history,
  and an empty \<open>eventLog\<close>, where the test expects the id of the JOIN event.
\<close>

theorem joinClassroom_new_no_event:
  "joinClassroom q ''p1'' store_new payload_alice
     = Inr (\<lparr>p_id = ''p1'', name = ''Alice'', email = ''a@example.com'', role = STUDENT\<rparr>,
            \<lparr>classRooms = [room_new\<lparr>studentParticipant := [Some ''p1''],
                                    participantHistory := [Some ''p1'']\<rparr>],
             classSessions = [],
             participants = [\<lparr>p_id = ''p1'', name = ''Alice'', email = ''a@example.com'',
                              role = STUDENT\<rparr>],
             eventLogs = []\<rparr>)
   \<and> eventLog (room_new\<lparr>studentParticipant := [Some ''p1''],
                        participantHistory := [Some ''p1'']\<rparr>) = []"
  by (simp add: joinClassroom_def Let_def findById_ClassRoom_def findOne_Participant_def
      save_ClassRoom_def insert_Participant_def store_new_def room_new_def payload_alice_def)

section \<open>joinClassroom: inactive rooms and the duplicate check\<close>

text \<open>
  Once the room is found and the active check is passed, the join fails exactly when a
  participant row with the email exists and the query answers yes; the error is then
  \<open>ParticipantAlreadyInClassroom\<close>. This holds whatever the query is.
\<close>

lemma joinClassroom_duplicate_iff:
  assumes "findById_ClassRoom st (j_roomId payload) = Some c"
    and "\<not> (role (participant payload) = STUDENT \<and> \<not> isActive c)"
  shows "(joinClassroom q newId st payload = Inl ParticipantAlreadyInClassroom)
          = (findOne_Participant st (email (participant payload)) \<noteq> None
             \<and> q st (email (participant payload)))"
    and "isl (joinClassroom q newId st payload)
          = (findOne_Participant st (email (participant payload)) \<noteq> None
             \<and> q st (email (participant payload)))"
  using assms by (auto simp add: joinClassroom_def Let_def split: option.splits)

lemma query_isActive:
  "ClassRoom_findParticipantByEmail
     (st\<lparr>classRooms := map (\<lambda>x. if c_id x = rid then x\<lparr>isActive := b\<rparr> else x) (classRooms st)\<rparr>) e
   = ClassRoom_findParticipantByEmail st e"
proof -
  have "list_ex P (map (\<lambda>x. if c_id x = rid then x\<lparr>isActive := b\<rparr> else x) cs)
        = list_ex P cs" if "\<And>x. P (x\<lparr>isActive := b\<rparr>) = P x" for P and cs :: "IClassRoom list"
    using that by (induction cs) auto
  then show ?thesis
    by (simp add: ClassRoom_findParticipantByEmail_def)
qed

lemma find_map_flag:
  "find (\<lambda>c. c_id c = rid') (map (\<lambda>x. if c_id x = rid then x\<lparr>isActive := b\<rparr> else x) cs)
    = map_option (\<lambda>x. if c_id x = rid then x\<lparr>isActive := b\<rparr> else x) (find (\<lambda>c. c_id c = rid') cs)"
  by (induction cs) auto

text \<open>
  C2, as stated, fails for teachers. Tom is a participant row and a current teacher of the
  inactive room \<open>r2\<close>, the only room of the store, so the membership-by-email query finds
  him in that very room. His join with role TEACHER does not succeed: it is rejected as a
  duplicate.
\<close>

theorem joinClassroom_inactive_teacher_counterexample:
  "findById_ClassRoom store_inactive (j_roomId payload_teacher)
      = Some (room_r2\<lparr>teacherParticipant := [Some ''u1'']\<rparr>)
   \<and> isActive (room_r2\<lparr>teacherParticipant := [Some ''u1'']\<rparr>) = False
   \<and> role (participant payload_teacher) = TEACHER
   \<and> joinClassroom ClassRoom_findParticipantByEmail ''n1'' store_inactive payload_teacher
       = Inl ParticipantAlreadyInClassroom"
  by (simp add: joinClassroom_def Let_def findById_ClassRoom_def findOne_Participant_def
      ClassRoom_findParticipantByEmail_def store_inactive_def payload_teacher_def room_r2_def teacher_u1_def)

text \<open>
  C2, amended. For every classroom with \<open>isActive == false\<close>: a join with role STUDENT
  fails with \<open>ClassNotActive\<close> (InactiveRoom). A join with role TEACHER is never rejected
  for inactivity: it fails, with \<open>ParticipantAlreadyInClassroom\<close>, exactly when a
  participant row with the email exists and the membership-by-email query finds the email,
  and succeeds otherwise. The flag never affects a teacher's join: with the flag of the room
  set to any value \<open>b\<close>, the error or the returned participant is the same.
\<close>

theorem joinClassroom_inactive:
  assumes "findById_ClassRoom st (j_roomId payload) = Some c" and "\<not> isActive c"
  shows "(role (participant payload) = STUDENT
            \<longrightarrow> joinClassroom ClassRoom_findParticipantByEmail newId st payload = Inl ClassNotActive)
       \<and> (role (participant payload) = TEACHER
            \<longrightarrow> (if findOne_Participant st (email (participant payload)) \<noteq> None
                     \<and> ClassRoom_findParticipantByEmail st (email (participant payload))
                  then joinClassroom ClassRoom_findParticipantByEmail newId st payload
                         = Inl ParticipantAlreadyInClassroom
                  else (\<exists>gp st'. joinClassroom ClassRoom_findParticipantByEmail newId st payload
                                    = Inr (gp, st')))
              \<and> map_sum id fst
                   (joinClassroom ClassRoom_findParticipantByEmail newId
                      (st\<lparr>classRooms := map (\<lambda>x. if c_id x = j_roomId payload
                                                 then x\<lparr>isActive := b\<rparr> else x)
                                             (classRooms st)\<rparr>) payload)
                 = map_sum id fst
                     (joinClassroom ClassRoom_findParticipantByEmail newId st payload))"
proof (intro conjI impI)
  assume "role (participant payload) = STUDENT"
  then show "joinClassroom ClassRoom_findParticipantByEmail newId st payload = Inl ClassNotActive"
    using assms by (simp add: joinClassroom_def Let_def)
next
  assume t: "role (participant payload) = TEACHER"
  show "if findOne_Participant st (email (participant payload)) \<noteq> None
           \<and> ClassRoom_findParticipantByEmail st (email (participant payload))
        then joinClassroom ClassRoom_findParticipantByEmail newId st payload
               = Inl ParticipantAlreadyInClassroom
        else (\<exists>gp st'. joinClassroom ClassRoom_findParticipantByEmail newId st payload
                          = Inr (gp, st'))"
    using assms t by (auto simp add: joinClassroom_def Let_def split: option.splits)
next
  assume t: "role (participant payload) = TEACHER"
  let ?st = "st\<lparr>classRooms := map (\<lambda>x. if c_id x = j_roomId payload
                                                 then x\<lparr>isActive := b\<rparr> else x)
                                             (classRooms st)\<rparr>"
  have f: "findById_ClassRoom ?st (j_roomId payload) = Some (c\<lparr>isActive := b\<rparr>)"
    using assms(1) find_key[of c_id "j_roomId payload" "classRooms st" c]
    by (simp add: findById_ClassRoom_def find_map_flag)
  have p: "findOne_Participant ?st e = findOne_Participant st e" for e
    by (simp add: findOne_Participant_def)
  show "map_sum id fst (joinClassroom ClassRoom_findParticipantByEmail newId ?st payload)
        = map_sum id fst (joinClassroom ClassRoom_findParticipantByEmail newId st payload)"
    using assms(1) t
    by (simp add: joinClassroom_def Let_def f p query_isActive split: option.splits)
qed

theorem joinClassroom_inactive_witness:
  "findById_ClassRoom store_s1 (j_roomId payload_new_teacher) = Some room_r2
   \<and> \<not> isActive room_r2
   \<and> (\<exists>gp st'. joinClassroom ClassRoom_findParticipantByEmail ''n1'' store_s1 payload_new_teacher
                   = Inr (gp, st'))
   \<and> joinClassroom ClassRoom_findParticipantByEmail ''n1'' store_s1
         (payload_new_teacher\<lparr>participant := student_u3\<rparr>) = Inl ClassNotActive"
proof -
  have f: "findById_ClassRoom store_s1 (j_roomId payload_new_teacher) = Some room_r2"
    by (simp add: findById_ClassRoom_def store_s1_def room_r1_def room_r2_def payload_new_teacher_def)
  have f': "findById_ClassRoom store_s1 (j_roomId (payload_new_teacher\<lparr>participant := student_u3\<rparr>)) = Some room_r2"
    using f by simp
  have a: "\<not> isActive room_r2" by (simp add: room_r2_def)
  have n: "findOne_Participant store_s1 (email (participant payload_new_teacher)) = None"
    by (simp add: findOne_Participant_def store_s1_def payload_new_teacher_def
        teacher_u1_def student_u2_def student_u3_def)
  have r: "role (participant payload_new_teacher) = TEACHER"
    by (simp add: payload_new_teacher_def)
  have r': "role (participant (payload_new_teacher\<lparr>participant := student_u3\<rparr>)) = STUDENT"
    by (simp add: student_u3_def)
  show ?thesis
    using joinClassroom_inactive [OF f a, of "''n1''" True]
      joinClassroom_inactive [OF f' a, of "''n1''" True] f a n r r'
    by simp
qed

text \<open>
  C5. The claim: when a participant row with the email exists, the join fails with
  DuplicateParticipant exactly when the email is a current member of the target classroom,
  not of another one. The call is \<open>ClassRoom.findParticipantByEmail(email)\<close>: the room id
  is not passed, so the answer is the same for every target room. Bob is a current student
  of room \<open>r1\<close> and of no other room; \<open>r1\<close> and \<open>r3\<close> are active. Whatever the query
  \<open>q\<close> is, Bob's join to \<open>r1\<close> is rejected as a duplicate exactly when his join to \<open>r3\<close>
  is (first conjunct), so one of the two outcomes is not the claimed one. With the query over
  the collection, his join to \<open>r3\<close>, where he is not a member, is rejected.
\<close>

theorem joinClassroom_check_ignores_room:
  "((joinClassroom q newId store_s1 \<lparr>j_roomId = ''r1'', participant = student_u2\<rparr>
        = Inl ParticipantAlreadyInClassroom)
     = (joinClassroom q newId store_s1 \<lparr>j_roomId = ''r3'', participant = student_u2\<rparr>
        = Inl ParticipantAlreadyInClassroom))
   \<and> joinClassroom ClassRoom_findParticipantByEmail newId store_s1
         \<lparr>j_roomId = ''r3'', participant = student_u2\<rparr>
       = Inl ParticipantAlreadyInClassroom
   \<and> findById_ClassRoom store_s1 ''r1'' = Some room_r1
   \<and> Some (p_id student_u2) \<in> set (studentParticipant room_r1)
   \<and> findById_ClassRoom store_s1 ''r3'' = Some room_r3
   \<and> teacherParticipant room_r3 @ studentParticipant room_r3 = []"
proof -
  have r1: "findById_ClassRoom store_s1 ''r1'' = Some room_r1"
    by (simp add: findById_ClassRoom_def store_s1_def room_r1_def)
  have r3: "findById_ClassRoom store_s1 ''r3'' = Some room_r3"
    by (simp add: findById_ClassRoom_def store_s1_def room_r1_def room_r2_def room_r3_def)
  have a: "isActive room_r1" "isActive room_r3"
    by (simp_all add: room_r1_def room_r3_def)
  have row: "findOne_Participant store_s1 (email student_u2) = Some student_u2"
    by (simp add: findOne_Participant_def store_s1_def teacher_u1_def student_u2_def)
  have q: "ClassRoom_findParticipantByEmail store_s1 (email student_u2)"
    by (simp add: ClassRoom_findParticipantByEmail_def store_s1_def room_r1_def
        teacher_u1_def student_u2_def)
  have d: "(joinClassroom q' newId store_s1 \<lparr>j_roomId = rid, participant = student_u2\<rparr>
              = Inl ParticipantAlreadyInClassroom) = q' store_s1 (email student_u2)"
    if "findById_ClassRoom store_s1 rid = Some c" and "isActive c" for q' rid c
    using that row joinClassroom_duplicate_iff(1)
            [of store_s1 "\<lparr>j_roomId = rid, participant = student_u2\<rparr>" c q' newId]
    by simp
  show ?thesis
    using d [OF r1 a(1)] d [OF r3 a(2)] r1 r3 q
    by (simp add: room_r1_def room_r3_def student_u2_def)
qed

section \<open>leaveClassSession\<close>

lemma leaveClassSession_teacher:
  assumes "findById_ClassSession st sid = Some s"
  shows "leaveClassSession now st sid userId TEACHER
            = Inr (s\<lparr>endedAt := Some now, currentParticipants := []\<rparr>,
                   save_ClassSession (s\<lparr>endedAt := Some now, currentParticipants := []\<rparr>) st)"
  using assms by (simp add: leaveClassSession_def Let_def)

lemma leaveClassSession_student:
  assumes "findById_ClassSession st sid = Some s"
  shows "leaveClassSession now st sid userId STUDENT
            = Inr (s\<lparr>currentParticipants :=
                        filter (\<lambda>p. p \<noteq> Some userId) (currentParticipants s)\<rparr>,
                   save_ClassSession
                     (s\<lparr>currentParticipants :=
                          filter (\<lambda>p. p \<noteq> Some userId) (currentParticipants s)\<rparr>) st)"
  using assms by (simp add: leaveClassSession_def Let_def)

lemma leaveClassSession_eventLog:
  "leaveClassSession now st sid userId r = Inr (s', st')
     \<Longrightarrow> findById_ClassSession st sid = Some s
     \<Longrightarrow> s_eventLog s' = s_eventLog s \<and> eventLogs st' = eventLogs st"
  by (auto simp add: leaveClassSession_def Let_def save_ClassSession_def
      split: option.splits if_splits)

text \<open>
  C3. The claim: a teacher's \<open>leaveClassSession\<close> leaves \<open>currentParticipants\<close> empty and
  \<open>endedAt\<close> set, and appends a LEAVE and then an END entry to the session's event log.
  The first two parts hold for every existing session (\<open>leaveClassSession_teacher\<close>). The
  third fails: no event is recorded (\<open>leaveClassSession_eventLog\<close>). On the session of
  the test "removes participant, logs leave and possibly end events"
  (\<open>currentParticipants = [u1, u2]\<close>, \<open>eventLog = []\<close>), leaving as teacher \<open>u1\<close> gives
  an empty list, \<open>endedAt\<close> set to the time of the call, and an event log that is still
  empty, where the test expects \<open>[leave1, end1]\<close>.
\<close>

theorem leaveClassSession_teacher_no_events:
  "leaveClassSession 5 store_ended ''s1'' ''u1'' TEACHER
     = Inr (session_ended\<lparr>endedAt := Some 5, currentParticipants := []\<rparr>,
            store_ended\<lparr>classSessions :=
                          [session_ended\<lparr>endedAt := Some 5, currentParticipants := []\<rparr>]\<rparr>)
   \<and> s_eventLog (session_ended\<lparr>endedAt := Some 5, currentParticipants := []\<rparr>) = []"
  by (simp add: leaveClassSession_def Let_def findById_ClassSession_def save_ClassSession_def
      store_ended_def store_s1_def session_ended_def session_s1_def)

text \<open>
  C4. The claim: a student's \<open>leaveClassSession\<close> removes exactly \<open>userId\<close> from
  \<open>currentParticipants\<close>, leaves \<open>endedAt\<close> as it is, and appends one LEAVE entry to the
  session's event log. The first two parts hold for every existing session
  (\<open>leaveClassSession_student\<close>: the others stay, in order, and no other field changes).
  The third fails for the same reason as in C3. On an active session with
  \<open>currentParticipants = [u1, u2]\<close> and an empty event log, the student \<open>u2\<close> leaves:
  the list is \<open>[u1]\<close>, \<open>endedAt\<close> is unset, and the event log is still empty.
\<close>

theorem leaveClassSession_student_no_events:
  "leaveClassSession 5 store_s1 ''s1'' ''u2'' STUDENT
     = Inr (session_s1\<lparr>currentParticipants := [Some ''u1'']\<rparr>,
            store_s1\<lparr>classSessions :=
                       [session_s1\<lparr>currentParticipants := [Some ''u1'']\<rparr>, session_s2]\<rparr>)
   \<and> endedAt (session_s1\<lparr>currentParticipants := [Some ''u1'']\<rparr>) = None
   \<and> s_eventLog (session_s1\<lparr>currentParticipants := [Some ''u1'']\<rparr>) = []"
  by (simp add: leaveClassSession_def Let_def findById_ClassSession_def save_ClassSession_def
      store_s1_def session_s1_def session_s2_def)

section \<open>startClass\<close>

text \<open>
  C6. Every call to \<open>startClass(roomId, teacherId)\<close> returns a session whose \<open>endedAt\<close> is
  unset, whose \<open>currentParticipants\<close> and \<open>participantsHistory\<close> are exactly
  \<open>[teacherId]\<close> and whose \<open>startedAt\<close> is the time of the call. The session is the same
  for every store (second-to-last conjunct): the room is not looked up, the teacher lists are
  not consulted, and the function has no error result. The session is appended to the
  collection.
\<close>

theorem startClass_session:
  "endedAt (fst (startClass newId now st rid teacherId)) = None
   \<and> currentParticipants (fst (startClass newId now st rid teacherId)) = [Some teacherId]
   \<and> participantsHistory (fst (startClass newId now st rid teacherId)) = [Some teacherId]
   \<and> startedAt (fst (startClass newId now st rid teacherId)) = Some now
   \<and> classRoomId (fst (startClass newId now st rid teacherId)) = rid
   \<and> fst (startClass newId now st rid teacherId) = fst (startClass newId now st' rid teacherId)
   \<and> classSessions (snd (startClass newId now st rid teacherId))
       = classSessions st @ [fst (startClass newId now st rid teacherId)]"
  by (simp add: startClass_def insert_ClassSession_def Let_def)

section \<open>leaveClassRoom\<close>

lemma leaveClassRoom_result:
  assumes "findById_ClassRoom st rid = Some c"
  shows "leaveClassRoom st rid userId r =
          Inr (if r = STUDENT
               then c\<lparr>studentParticipant :=
                        filter (\<lambda>p. p = Some userId) (studentParticipant c)\<rparr>
               else c\<lparr>teacherParticipant :=
                        filter (\<lambda>p. p = Some userId) (teacherParticipant c)\<rparr>)"
  using assms by (simp add: leaveClassRoom_def)

text \<open>
  C7. The claim: \<open>leaveClassRoom\<close> removes \<open>userId\<close> from the list of the given role and
  leaves every other member of that list in place. The code keeps the members that are
  equal to \<open>userId\<close> (\<open>leaveClassRoom_result\<close>), where \<open>leaveClassSession\<close> keeps those
  that differ. With students \<open>[u2, u3]\<close>, the leave of student \<open>u2\<close> returns a classroom
  whose student list is \<open>[u2]\<close>: the leaver stays and \<open>u3\<close> is gone. The teacher list is
  untouched and nothing is saved, as the claim says.
\<close>

theorem leaveClassRoom_keeps_the_leaver:
  "leaveClassRoom store_s1 ''r1'' ''u2'' STUDENT
     = Inr (room_r1\<lparr>studentParticipant := [Some ''u2'']\<rparr>)
   \<and> studentParticipant room_r1 = [Some ''u2'', Some ''u3'']"
  by (simp add: leaveClassRoom_def findById_ClassRoom_def store_s1_def room_r1_def)

section \<open>getClassRoomReportById\<close>

text \<open>
  C8. \<open>getClassRoomReportById(roomId)\<close> returns a response for every store and every id
  (it is a total function into the response type: nothing is raised). For a room that does
  not exist the response has status 404, the message "Class room not found" and no data.
  For an existing room it has status 200 and a report whose \<open>sessions\<close> array has as many
  entries as sessions are stored for the room; the entries of the classroom's event log and
  of each session's event log line up with the expanded events and carry the type, the
  timestamp, and the name and role of the participant the actor reference resolves to. An
  entry has no field for the reference itself.
\<close>

theorem getClassRoomReportById_result:
  "(findById_ClassRoom st rid = None \<longrightarrow>
      getClassRoomReportById st rid
        = \<lparr>statusCode = 404, data = None, message = Some ''Class room not found''\<rparr>)
   \<and> (\<forall>c. findById_ClassRoom st rid = Some c \<longrightarrow>
        (\<exists>rep. getClassRoomReportById st rid
                  = \<lparr>statusCode = 200, data = Some rep, message = None\<rparr>
           \<and> length (rc_sessions rep)
               = length (filter (\<lambda>s. classRoomId s = rid) (classSessions st))
           \<and> list_all2 (\<lambda>entry ev.
                   r_type entry = e_type ev \<and> r_timestamp entry = timestamp ev
                   \<and> r_name entry = map_option name (findById_Participant st (e_participant ev))
                   \<and> r_role entry = map_option role (findById_Participant st (e_participant ev)))
                 (rc_eventLog rep) (populateEventLog st (eventLog c))
           \<and> list_all2 (\<lambda>rs s.
                   rs_startedAt rs = startedAt s \<and> rs_endedAt rs = endedAt s
                   \<and> list_all2 (\<lambda>entry ev.
                         r_type entry = e_type ev \<and> r_timestamp entry = timestamp ev
                         \<and> r_name entry
                             = map_option name (findById_Participant st (e_participant ev))
                         \<and> r_role entry
                             = map_option role (findById_Participant st (e_participant ev)))
                       (rs_eventLog rs) (populateEventLog st (s_eventLog s)))
                 (rc_sessions rep) (filter (\<lambda>s. classRoomId s = rid) (classSessions st))))"
  by (simp add: getClassRoomReportById_def formatSession_def formatEvent_def
      list_all2_map1 list_all2_same)

theorem getClassRoomReportById_result_witness:
  "findById_ClassRoom store_report ''x'' = None
   \<and> getClassRoomReportById store_report ''x''
        = \<lparr>statusCode = 404, data = None, message = Some ''Class room not found''\<rparr>
   \<and> findById_ClassRoom store_report ''r1'' = Some (room_r1\<lparr>eventLog := [''e1'']\<rparr>)
   \<and> getClassRoomReportById store_report ''r1''
        = \<lparr>statusCode = 200,
           data = Some \<lparr>rc_id = ''r1'', rc_name = ''R'', rc_roomId = ''rid'',
                        rc_eventLog = [\<lparr>r_type = JOIN, r_name = Some ''Bob'',
                                        r_role = Some STUDENT, r_timestamp = 4\<rparr>],
                        rc_sessions = [\<lparr>rs_startedAt = Some 1, rs_endedAt = Some 2,
                                        rs_eventLog = [\<lparr>r_type = JOIN, r_name = Some ''Bob'',
                                                        r_role = Some STUDENT,
                                                        r_timestamp = 4\<rparr>]\<rparr>]\<rparr>,
           message = None\<rparr>
   \<and> length (filter (\<lambda>s. classRoomId s = ''r1'') (classSessions store_report)) = 1"
proof -
  have n: "findById_ClassRoom store_report ''x'' = None"
    by (simp add: findById_ClassRoom_def store_report_def room_r1_def room_r2_def)
  have f: "findById_ClassRoom store_report ''r1'' = Some (room_r1\<lparr>eventLog := [''e1'']\<rparr>)"
    by (simp add: findById_ClassRoom_def store_report_def room_r1_def room_r2_def)
  have p: "populateEventLog store_report [''e1''] = [event_e1]"
    by (simp add: populateEventLog_def List.map_filter_def findById_EventLog_def
        store_report_def event_e1_def)
  have u: "findById_Participant store_report ''u2'' = Some student_u2"
    by (simp add: findById_Participant_def store_report_def teacher_u1_def student_u2_def)
  have s: "filter (\<lambda>s. classRoomId s = ''r1'') (classSessions store_report)
            = [session_ended\<lparr>s_eventLog := [''e1'']\<rparr>]"
    by (simp add: store_report_def session_ended_def session_s1_def)
  have r: "getClassRoomReportById store_report ''r1''
        = \<lparr>statusCode = 200,
           data = Some \<lparr>rc_id = ''r1'', rc_name = ''R'', rc_roomId = ''rid'',
                        rc_eventLog = [\<lparr>r_type = JOIN, r_name = Some ''Bob'',
                                        r_role = Some STUDENT, r_timestamp = 4\<rparr>],
                        rc_sessions = [\<lparr>rs_startedAt = Some 1, rs_endedAt = Some 2,
                                        rs_eventLog = [\<lparr>r_type = JOIN, r_name = Some ''Bob'',
                                                        r_role = Some STUDENT,
                                                        r_timestamp = 4\<rparr>]\<rparr>]\<rparr>,
           message = None\<rparr>"
    using f p u s
    by (simp add: getClassRoomReportById_def formatSession_def formatEvent_def room_r1_def
        session_ended_def session_s1_def event_e1_def student_u2_def)
  show ?thesis
    using getClassRoomReportById_result [of store_report "''x''"]
      getClassRoomReportById_result [of store_report "''r1''"] n f r s
    by simp
qed

section \<open>joinSessionViaSessionList\<close>

text \<open>
  The result of a call whose session and classroom are found, in one equation: a new row
  is created and everything is appended when no row has the email; otherwise the call is
  rejected when \<open>_id\<close> is in the session's current list, and else appends to the session,
  and to the classroom unless \<open>_id\<close> is in its student list.
\<close>

lemma joinSessionViaSessionList_result:
  assumes "findById_ClassSession st sid = Some session"
    and "findById_ClassRoom st (classRoomId session) = Some classRoom"
  shows "joinSessionViaSessionList newId st sid p =
     (let session' = session
            \<lparr>currentParticipants := currentParticipants session @ [arg_idString p],
             participantsHistory := participantsHistory session @ [arg_idString p]\<rparr>;
          classRoom' = classRoom
            \<lparr>studentParticipant := studentParticipant classRoom @ [arg_idString p],
             participantHistory := participantHistory classRoom @ [arg_idString p]\<rparr>
      in case findOne_Participant st (arg_email p) of
           None \<Rightarrow>
             Inr ((create_Participant newId p, c_id classRoom),
                  save_ClassSession session'
                    (save_ClassRoom classRoom'
                       (insert_Participant (create_Participant newId p) st)))
         | Some row \<Rightarrow>
             if arg_id p \<in> set (currentParticipants session) then Inl AlreadyInSession
             else Inr ((row, c_id classRoom),
                       save_ClassSession session'
                         (if arg_id p \<in> set (studentParticipant classRoom) then st
                          else save_ClassRoom classRoom' st)))"
  using assms by (simp add: joinSessionViaSessionList_def Let_def split: option.splits)

text \<open>
  C9. The claim: with an existing row, the call fails with AlreadyInSession exactly when
  the participant is in the session's current list, and otherwise adds the participant to
  the classroom only if the participant is not already a classroom member. The code's own
  steps read "2. Check if already in classroom" and "3. Add to classroom if not present",
  but the check looks at \<open>studentParticipant\<close> alone. Tom is a current teacher of room
  \<open>r1\<close>, so a member of the classroom, and not in session \<open>s2\<close> of that room. His call
  succeeds and appends him to the classroom's student list and history once more.
\<close>

theorem joinSessionViaSessionList_teacher_member_added:
  "findById_ClassRoom store_s1 ''r1'' = Some room_r1
   \<and> arg_id arg_tom \<in> set (teacherParticipant room_r1)
   \<and> joinSessionViaSessionList ''n1'' store_s1 ''s2'' arg_tom
      = Inr ((teacher_u1, ''r1''),
             store_s1\<lparr>classRooms :=
                         [room_r1\<lparr>studentParticipant := [Some ''u2'', Some ''u3'', Some ''u1''],
                                  participantHistory :=
                                    [Some ''u1'', Some ''u2'', Some ''u3'', Some ''u1'']\<rparr>,
                          room_r2, room_r3],
                      classSessions :=
                         [session_s1,
                          session_s2\<lparr>currentParticipants := [Some ''u2'', Some ''u1''],
                                     participantsHistory := [Some ''u2'', Some ''u1'']\<rparr>]\<rparr>)"
  by (simp add: joinSessionViaSessionList_def Let_def findById_ClassSession_def
      findById_ClassRoom_def findOne_Participant_def save_ClassRoom_def save_ClassSession_def
      store_s1_def room_r1_def room_r2_def room_r3_def session_s1_def session_s2_def
      teacher_u1_def student_u2_def student_u3_def arg_tom_def)

text \<open>
  Both tests read the \<open>_id\<close> of the object handed in, not the id of the row found by
  email. Bob's row is in the current list of session \<open>s2\<close>; handed in as a plain object
  (name, email, role), he is not rejected, and \<open>null\<close> goes to all four lists.
\<close>

lemma joinSessionViaSessionList_plain_object:
  "findById_ClassSession store_s1 ''s2'' = Some session_s2
   \<and> findOne_Participant store_s1 (arg_email arg_bob_plain) = Some student_u2
   \<and> Some (p_id student_u2) \<in> set (currentParticipants session_s2)
   \<and> joinSessionViaSessionList ''n1'' store_s1 ''s2'' arg_bob_plain
      = Inr ((student_u2, ''r1''),
             store_s1\<lparr>classRooms :=
                         [room_r1\<lparr>studentParticipant := [Some ''u2'', Some ''u3'', None],
                                  participantHistory :=
                                    [Some ''u1'', Some ''u2'', Some ''u3'', None]\<rparr>,
                          room_r2, room_r3],
                      classSessions :=
                         [session_s1,
                          session_s2\<lparr>currentParticipants := [Some ''u2'', None],
                                     participantsHistory := [Some ''u2'', None]\<rparr>]\<rparr>)"
  by (simp add: joinSessionViaSessionList_def Let_def findById_ClassSession_def
      findById_ClassRoom_def findOne_Participant_def save_ClassRoom_def save_ClassSession_def
      store_s1_def room_r1_def room_r2_def room_r3_def session_s1_def session_s2_def
      teacher_u1_def student_u2_def student_u3_def arg_bob_plain_def)

text \<open>
  C10. For every call whose session and classroom are found: unless it is rejected as
  already in the session, \<open>joinSessionViaSessionList\<close> succeeds, the classroom's teacher
  list is as before, and \<open>participant.id\<close> is appended to \<open>studentParticipant\<close> and to the
  history, except when a row with the email existed and \<open>_id\<close> was already in
  \<open>studentParticipant\<close>. Neither the role nor the teacher list occurs in these conditions:
  every participant added to the classroom goes to the student list, a teacher too, also
  one who is already in \<open>teacherParticipant\<close> of the room.
\<close>

theorem joinSessionViaSessionList_student_list:
  assumes s: "findById_ClassSession st sid = Some session"
    and c: "findById_ClassRoom st (classRoomId session) = Some classRoom"
  shows "if findOne_Participant st (arg_email p) \<noteq> None
            \<and> arg_id p \<in> set (currentParticipants session)
         then joinSessionViaSessionList newId st sid p = Inl AlreadyInSession
         else (\<exists>res st' c'.
                 joinSessionViaSessionList newId st sid p = Inr (res, st')
                 \<and> findById_ClassRoom st' (classRoomId session) = Some c'
                 \<and> teacherParticipant c' = teacherParticipant classRoom
                 \<and> studentParticipant c' =
                     (if findOne_Participant st (arg_email p) \<noteq> None
                         \<and> arg_id p \<in> set (studentParticipant classRoom)
                      then studentParticipant classRoom
                      else studentParticipant classRoom @ [arg_idString p])
                 \<and> participantHistory c' =
                     (if findOne_Participant st (arg_email p) \<noteq> None
                         \<and> arg_id p \<in> set (studentParticipant classRoom)
                      then participantHistory classRoom
                      else participantHistory classRoom @ [arg_idString p]))"
proof -
  have kc: "c_id classRoom = classRoomId session"
    using c by (rule findById_ClassRoom_key)
  show ?thesis
  proof (cases "findOne_Participant st (arg_email p)")
    case None
    then show ?thesis
      using c kc
      by (simp add: joinSessionViaSessionList_result [OF s c] Let_def
          findById_ClassRoom_save_ClassSession findById_save_ClassRoom
          findById_ClassRoom_insert_Participant)
  next
    case (Some row)
    then show ?thesis
      using c kc
      by (simp add: joinSessionViaSessionList_result [OF s c] Let_def
          findById_ClassRoom_save_ClassSession findById_save_ClassRoom)
  qed
qed

theorem joinSessionViaSessionList_student_list_witness:
  "findById_ClassSession store_s1 ''s2'' = Some session_s2
   \<and> findById_ClassRoom store_s1 (classRoomId session_s2) = Some room_r1
   \<and> arg_role arg_tom = TEACHER
   \<and> arg_id arg_tom \<in> set (teacherParticipant room_r1)
   \<and> (\<exists>res st' c'.
         joinSessionViaSessionList ''n1'' store_s1 ''s2'' arg_tom = Inr (res, st')
         \<and> findById_ClassRoom st' ''r1'' = Some c'
         \<and> teacherParticipant c' = [Some ''u1'']
         \<and> studentParticipant c' = [Some ''u2'', Some ''u3'', Some ''u1'']
         \<and> participantHistory c' = [Some ''u1'', Some ''u2'', Some ''u3'', Some ''u1''])"
proof -
  have s: "findById_ClassSession store_s1 ''s2'' = Some session_s2"
    by (simp add: findById_ClassSession_def store_s1_def session_s1_def session_s2_def)
  have c: "findById_ClassRoom store_s1 (classRoomId session_s2) = Some room_r1"
    by (simp add: findById_ClassRoom_def store_s1_def session_s2_def room_r1_def)
  have r: "findOne_Participant store_s1 (arg_email arg_tom) = Some teacher_u1"
    by (simp add: findOne_Participant_def store_s1_def teacher_u1_def arg_tom_def)
  show ?thesis
    using joinSessionViaSessionList_student_list [OF s c, of arg_tom "''n1''"] s c r
    by (simp add: session_s2_def room_r1_def arg_tom_def)
qed

end
